theory Spec2Isabelle
  imports Main "HOL-Library.Word" "HOL-Library.Monad_Syntax"
begin

unbundle bit_operations_syntax

section \<open>MotorKnob driver: register codec\<close>

text \<open>
  A shallow embedding of \<^verbatim>\<open>motorknob_driver.c\<close>. The C integer types are words of
  their width: \<open>u8\<close>, \<open>uint16_t\<close>, \<open>s32\<close> and \<open>size_t\<close> (an \<^verbatim>\<open>unsigned long\<close> of 64 bits).
  A value of the signed type \<open>s32\<close> is read with \<open>sint\<close>. A \<^verbatim>\<open>ssize_t\<close> result is given as
  the integer it denotes, the conversions into it written out (\<open>sint\<close> of the converted
  word).

  A \<^verbatim>\<open>char\<close> of a buffer is kept as its bit pattern, a \<open>u8\<close>. Whether plain
  \<^verbatim>\<open>char\<close> is a signed type is not fixed by the source file but by the compiler's
  target and flags, so the embedding takes it as the parameter \<open>char_signed\<close> wherever a
  \<^verbatim>\<open>char\<close> is converted to a wider type. The kernel build passes
  \<^verbatim>\<open>-funsigned-char\<close> from Linux 6.2 on, and the one-argument \<^verbatim>\<open>probe\<close> callback of
  this driver exists from Linux 6.3 on, so the driver is compiled with
  \<open>char_signed = False\<close>.
\<close>

type_synonym u8 = "8 word"
type_synonym uint16_t = "16 word"
type_synonym s32 = "32 word"
type_synonym size_t = "64 word"

subsection \<open>Command structure\<close>

definition WRITE_REQUEST :: u8 where
  "WRITE_REQUEST = 0x80"

definition DATA_START_POS :: u8 where
  "DATA_START_POS = 0"

definition DATA_END_POS :: u8 where
  "DATA_END_POS = 1"

definition DATA_DETENTS :: u8 where
  "DATA_DETENTS = 2"

definition DATA_CURRENT_POS :: u8 where
  "DATA_CURRENT_POS = 3"

definition WRITE_START_POS :: u8 where
  "WRITE_START_POS = (WRITE_REQUEST OR DATA_START_POS)"

definition WRITE_END_POS :: u8 where
  "WRITE_END_POS = (WRITE_REQUEST OR DATA_END_POS)"

definition WRITE_DETENTS :: u8 where
  "WRITE_DETENTS = (WRITE_REQUEST OR DATA_DETENTS)"

text \<open>The errno values of \<^verbatim>\<open>errno-base.h\<close> that the driver returns negated.\<close>

definition EINVAL :: int where
  "EINVAL = 22"

definition ENOMEM :: int where
  "ENOMEM = 12"

definition EEXIST :: int where
  "EEXIST = 17"

subsection \<open>The bus\<close>

text \<open>
  The SMBus transfer functions belong to the kernel. The driver sees of them the
  transaction it asks for and the \<open>s32\<close> that comes back: a negative errno, or, for a
  read, the word read. The model keeps the list of transactions issued so far and
  takes the device's replies as a parameter \<open>bus\<close>, a function of the transactions that
  went before and of the one asked for.
\<close>

datatype bus_event = Read_word u8 | Write_word u8 uint16_t

type_synonym bus = "bus_event list \<Rightarrow> bus_event \<Rightarrow> s32"

definition i2c_smbus_write_word_data ::
  "bus \<Rightarrow> u8 \<Rightarrow> uint16_t \<Rightarrow> bus_event list \<Rightarrow> s32 \<times> bus_event list" where
  "i2c_smbus_write_word_data b reg w log =
     (b log (Write_word reg w), log @ [Write_word reg w])"

definition i2c_smbus_read_word_data ::
  "bus \<Rightarrow> u8 \<Rightarrow> bus_event list \<Rightarrow> s32 \<times> bus_event list" where
  "i2c_smbus_read_word_data b reg log =
     (b log (Read_word reg), log @ [Read_word reg])"

subsection \<open>Conversions of a plain char\<close>

definition char_to_uint16 :: "bool \<Rightarrow> u8 \<Rightarrow> uint16_t" where
  "char_to_uint16 char_signed c = (if char_signed then scast c else ucast c)"

definition char_to_int :: "bool \<Rightarrow> u8 \<Rightarrow> s32" where
  "char_to_int char_signed c = (if char_signed then scast c else ucast c)"

subsection \<open>motorknob\_write and motorknob\_read\<close>

text \<open>
  \<open>build_word\<close> is the two statements under the comment \<^verbatim>\<open>// build word\<close>: the cast of
  \<^verbatim>\<open>user_buffer[0]\<close> to \<open>uint16_t\<close>, the shift, done in \<^verbatim>\<open>int\<close> after the integer
  promotion and cut back to 16 bits by the initialisation, and the compound assignment
  \<^verbatim>\<open>word ^= user_buffer[1]\<close>, again done in \<^verbatim>\<open>int\<close> and cut back.
\<close>

definition build_word :: "bool \<Rightarrow> u8 list \<Rightarrow> uint16_t" where
  "build_word char_signed user_buffer =
     (let word0 = (ucast (push_bit 8 (ucast (char_to_uint16 char_signed (user_buffer ! 0)) :: s32))
                     :: uint16_t)
      in ucast ((ucast word0 :: s32) XOR char_to_int char_signed (user_buffer ! 1)))"

text \<open>
  The result is the \<^verbatim>\<open>ssize_t\<close> returned, as an integer, and the transactions issued.
  \<open>user_buffer\<close> is the byte sequence the pointer refers to; the function reads it at 0
  and 1 only, after the check of \<open>count\<close>.
\<close>

definition motorknob_write ::
  "bool \<Rightarrow> bus \<Rightarrow> u8 \<Rightarrow> u8 list \<Rightarrow> size_t \<Rightarrow> bus_event list \<Rightarrow> int \<times> bus_event list" where
  "motorknob_write char_signed b reg user_buffer count log =
     (if count < 2 then (- EINVAL, log)
      else
        (case i2c_smbus_write_word_data b reg (build_word char_signed user_buffer) log of
           (ret, log') \<Rightarrow>
             if sint ret < 0 then (sint ret, log')
             else (sint count, log')))"

text \<open>
  \<open>motorknob_read\<close> returns the \<^verbatim>\<open>ssize_t\<close>, the caller's buffer after the call and the
  transactions issued. The shift of the non-negative \<open>s32\<close> is the arithmetic one.
\<close>

definition motorknob_read ::
  "bus \<Rightarrow> u8 \<Rightarrow> u8 list \<Rightarrow> bus_event list \<Rightarrow> int \<times> u8 list \<times> bus_event list" where
  "motorknob_read b reg user_buffer log =
     (case i2c_smbus_read_word_data b reg log of
        (result, log') \<Rightarrow>
          if sint result < 0 then (sint result, user_buffer, log')
          else (2, user_buffer[0 := ucast result, 1 := ucast (signed_drop_bit 8 result)], log'))"

subsection \<open>The attribute handlers\<close>

text \<open>
  The handlers ignore their \<^verbatim>\<open>kobject\<close> and \<^verbatim>\<open>kobj_attribute\<close> arguments, which the
  model leaves out.
\<close>

type_synonym show_handler = "bus \<Rightarrow> u8 list \<Rightarrow> bus_event list \<Rightarrow> int \<times> u8 list \<times> bus_event list"
type_synonym store_handler =
  "bool \<Rightarrow> bus \<Rightarrow> u8 list \<Rightarrow> size_t \<Rightarrow> bus_event list \<Rightarrow> int \<times> bus_event list"

definition read_detents :: show_handler where
  "read_detents b buffer log = motorknob_read b DATA_DETENTS buffer log"

definition write_detents :: store_handler where
  "write_detents char_signed b buffer count log =
     motorknob_write char_signed b WRITE_DETENTS buffer count log"

definition read_start_position :: show_handler where
  "read_start_position b buffer log = motorknob_read b DATA_START_POS buffer log"

definition write_start_position :: store_handler where
  "write_start_position char_signed b buffer count log =
     motorknob_write char_signed b WRITE_START_POS buffer count log"

definition read_end_position :: show_handler where
  "read_end_position b buffer log = motorknob_read b DATA_END_POS buffer log"

definition write_end_position :: store_handler where
  "write_end_position char_signed b buffer count log =
     motorknob_write char_signed b WRITE_END_POS buffer count log"

definition read_position :: show_handler where
  "read_position b buffer log = motorknob_read b DATA_CURRENT_POS buffer log"

text \<open>The \<^verbatim>\<open>__ATTR\<close> initialisers; the mode is the value of the octal literal.\<close>

record kobj_attribute =
  attr_name :: string
  attr_mode :: nat
  attr_show :: "show_handler option"
  attr_store :: "store_handler option"

definition detent_attr :: kobj_attribute where
  "detent_attr = \<lparr>attr_name = ''detents'', attr_mode = 432,
                  attr_show = Some read_detents, attr_store = Some write_detents\<rparr>"

definition start_pos_attr :: kobj_attribute where
  "start_pos_attr = \<lparr>attr_name = ''start_position'', attr_mode = 432,
                     attr_show = Some read_start_position,
                     attr_store = Some write_start_position\<rparr>"

definition end_pos_attr :: kobj_attribute where
  "end_pos_attr = \<lparr>attr_name = ''end_position'', attr_mode = 432,
                   attr_show = Some read_end_position, attr_store = Some write_end_position\<rparr>"

definition position_attr :: kobj_attribute where
  "position_attr = \<lparr>attr_name = ''position'', attr_mode = 288,
                    attr_show = Some read_position, attr_store = None\<rparr>"

section \<open>MotorKnob driver: the sysfs entries\<close>

subsection \<open>The kernel's kobjects\<close>

text \<open>
  \<^verbatim>\<open>kobject_create_and_add\<close>, \<^verbatim>\<open>kobject_put\<close>, \<^verbatim>\<open>sysfs_create_file\<close> and
  \<^verbatim>\<open>sysfs_remove_file\<close> belong to the kernel (\<^verbatim>\<open>lib/kobject.c\<close>, \<^verbatim>\<open>fs/sysfs/file.c\<close>).
  Their model is the part of their contract the driver relies on.

  A kobject pointer is \<open>NULL\<close> or an address. The kernel's memory is the list of the
  kobjects allocated so far, the address being the position; a freed kobject leaves
  \<open>None\<close> behind, so a pointer to it is stale for ever. A kobject has a name, a parent,
  a reference count and the names of the attribute files in its directory. A kobject
  holds one reference on its parent from the moment it is added until it is freed.

  Whether a creation succeeds is the kernel's decision: the parameter \<open>ok\<close> tells, for
  the name of the directory or file to create, whether the kernel grants it.

  A call that dereferences a \<open>NULL\<close> or stale pointer has no result (\<open>None\<close>): the
  kernel faults.
\<close>

datatype kptr = NULL | Ptr nat

record kobject =
  kname :: string
  kparent :: kptr
  kref :: nat
  kfiles :: "string list"

text \<open>The calls the driver makes, in the order it makes them.\<close>

datatype sysfs_call =
  Create_and_add string kptr
  | Create_file kptr string
  | Remove_file kptr string
  | Put kptr

text \<open>The kernel's memory, the driver's two static pointers, and the calls made.\<close>

record world =
  heap :: "kobject option list"
  motorknob_kobj :: kptr
  motorknob_profile_kobj :: kptr
  calls :: "sysfs_call list"

definition deref :: "kobject option list \<Rightarrow> nat \<Rightarrow> kobject option" where
  "deref h i = (if i < length h then h ! i else None)"

definition live_count :: "kobject option list \<Rightarrow> nat" where
  "live_count h = length (filter (\<lambda>x. x \<noteq> None) h)"

text \<open>
  Dropping a reference: the last one frees the kobject, its directory and files go,
  and its reference on the parent is dropped in turn.
\<close>

function put_ref :: "kptr \<Rightarrow> kobject option list \<Rightarrow> kobject option list option" where
  "put_ref NULL h = Some h"
| "put_ref (Ptr i) h =
     (if i < length h then
        (case h ! i of
           None \<Rightarrow> None
         | Some k \<Rightarrow>
             if 1 < kref k then Some (h[i := Some (k\<lparr>kref := kref k - 1\<rparr>)])
             else put_ref (kparent k) (h[i := None]))
      else None)"
  by pat_completeness auto
termination
proof (relation "measure (\<lambda>(p, h). live_count h)")
  show "wf (measure (\<lambda>(p, h). live_count h))"
    by simp
next
  fix i :: nat and h :: "kobject option list" and k :: kobject
  assume "i < length h" and "h ! i = Some k"
  then have "live_count (h[i := None]) < live_count h"
  proof (induction h arbitrary: i)
    case Nil
    then show ?case by simp
  next
    case (Cons x xs)
    show ?case
    proof (cases i)
      case 0
      with Cons.prems show ?thesis by (simp add: live_count_def)
    next
      case (Suc j)
      with Cons.prems have "live_count (xs[j := None]) < live_count xs"
        by (intro Cons.IH) simp_all
      with Suc show ?thesis by (simp add: live_count_def)
    qed
  qed
  then show "((kparent k, h[i := None]), (Ptr i, h)) \<in> measure (\<lambda>(p, h). live_count h)"
    by simp
qed

definition kobject_put :: "kptr \<Rightarrow> world \<Rightarrow> world option" where
  "kobject_put kobj s =
     (case put_ref kobj (heap s) of
        None \<Rightarrow> None
      | Some h \<Rightarrow> Some (s\<lparr>heap := h, calls := calls s @ [Put kobj]\<rparr>))"

definition kobject_create_and_add ::
  "(string \<Rightarrow> bool) \<Rightarrow> string \<Rightarrow> kptr \<Rightarrow> world \<Rightarrow> (kptr \<times> world) option" where
  "kobject_create_and_add ok name parent s =
     (let s1 = s\<lparr>calls := calls s @ [Create_and_add name parent]\<rparr> in
      if \<not> ok name then Some (NULL, s1)
      else
        (case parent of
           NULL \<Rightarrow>
             Some (Ptr (length (heap s1)),
               s1\<lparr>heap := heap s1 @
                 [Some \<lparr>kname = name, kparent = NULL, kref = 1, kfiles = []\<rparr>]\<rparr>)
         | Ptr i \<Rightarrow>
             (case deref (heap s1) i of
                None \<Rightarrow> None
              | Some k \<Rightarrow>
                  Some (Ptr (length (heap s1)),
                    s1\<lparr>heap := (heap s1)[i := Some (k\<lparr>kref := kref k + 1\<rparr>)] @
                      [Some \<lparr>kname = name, kparent = Ptr i, kref = 1, kfiles = []\<rparr>]\<rparr>))))"

text \<open>
  \<^verbatim>\<open>sysfs_create_file\<close> refuses a \<open>NULL\<close> kobject and a name already in the directory;
  its result is 0 or a negative errno.
\<close>

definition sysfs_create_file ::
  "(string \<Rightarrow> bool) \<Rightarrow> kptr \<Rightarrow> kobj_attribute \<Rightarrow> world \<Rightarrow> (int \<times> world) option" where
  "sysfs_create_file ok kobj attr s =
     (let s1 = s\<lparr>calls := calls s @ [Create_file kobj (attr_name attr)]\<rparr> in
      case kobj of
        NULL \<Rightarrow> Some (- EINVAL, s1)
      | Ptr i \<Rightarrow>
          (case deref (heap s1) i of
             None \<Rightarrow> None
           | Some k \<Rightarrow>
               if attr_name attr \<in> set (kfiles k) then Some (- EEXIST, s1)
               else if \<not> ok (attr_name attr) then Some (- ENOMEM, s1)
               else Some (0,
                 s1\<lparr>heap := (heap s1)[i := Some (k\<lparr>kfiles := kfiles k @ [attr_name attr]\<rparr>)]\<rparr>)))"

text \<open>
  \<^verbatim>\<open>sysfs_remove_file\<close> reads \<^verbatim>\<open>kobj->sd\<close> at once; a file that is not there is
  no error.
\<close>

definition sysfs_remove_file :: "kptr \<Rightarrow> kobj_attribute \<Rightarrow> world \<Rightarrow> world option" where
  "sysfs_remove_file kobj attr s =
     (let s1 = s\<lparr>calls := calls s @ [Remove_file kobj (attr_name attr)]\<rparr> in
      case kobj of
        NULL \<Rightarrow> None
      | Ptr i \<Rightarrow>
          (case deref (heap s1) i of
             None \<Rightarrow> None
           | Some k \<Rightarrow>
               Some (s1\<lparr>heap :=
                 (heap s1)[i := Some (k\<lparr>kfiles := removeAll (attr_name attr) (kfiles k)\<rparr>)]\<rparr>)))"

subsection \<open>setup\_sysfs and destory\_sysfs\<close>

text \<open>
  The result of \<open>setup_sysfs\<close> is the \<^verbatim>\<open>int\<close> returned and the state left behind. The
  \<^verbatim>\<open>printk\<close> lines are left out.
\<close>

definition setup_sysfs :: "(string \<Rightarrow> bool) \<Rightarrow> world \<Rightarrow> (int \<times> world) option" where
  "setup_sysfs ok s0 = do {
     (p, s) \<leftarrow> kobject_create_and_add ok ''motorknob'' NULL s0;
     let s = s\<lparr>motorknob_kobj := p\<rparr>;
     if motorknob_kobj s = NULL then Some (- ENOMEM, s)
     else do {
       (p, s) \<leftarrow> kobject_create_and_add ok ''profile'' (motorknob_kobj s) s;
       let s = s\<lparr>motorknob_profile_kobj := p\<rparr>;
       if motorknob_profile_kobj s = NULL then do {
         s \<leftarrow> kobject_put (motorknob_kobj s) s;
         Some (- ENOMEM, s)
       }
       else do {
         (r, s) \<leftarrow> sysfs_create_file ok (motorknob_profile_kobj s) detent_attr s;
         if r \<noteq> 0 then do {
           s \<leftarrow> kobject_put (motorknob_kobj s) s;
           s \<leftarrow> kobject_put (motorknob_profile_kobj s) s;
           Some (- ENOMEM, s)
         }
         else do {
           (r, s) \<leftarrow> sysfs_create_file ok (motorknob_profile_kobj s) start_pos_attr s;
           if r \<noteq> 0 then do {
             s \<leftarrow> sysfs_remove_file (motorknob_profile_kobj s) detent_attr s;
             s \<leftarrow> kobject_put (motorknob_profile_kobj s) s;
             s \<leftarrow> kobject_put (motorknob_kobj s) s;
             Some (- ENOMEM, s)
           }
           else do {
             (r, s) \<leftarrow> sysfs_create_file ok (motorknob_profile_kobj s) end_pos_attr s;
             if r \<noteq> 0 then do {
               s \<leftarrow> sysfs_remove_file (motorknob_profile_kobj s) detent_attr s;
               s \<leftarrow> sysfs_remove_file (motorknob_profile_kobj s) start_pos_attr s;
               s \<leftarrow> kobject_put (motorknob_profile_kobj s) s;
               s \<leftarrow> kobject_put (motorknob_kobj s) s;
               Some (- ENOMEM, s)
             }
             else do {
               (r, s) \<leftarrow> sysfs_create_file ok (motorknob_kobj s) position_attr s;
               if r \<noteq> 0 then do {
                 s \<leftarrow> sysfs_remove_file (motorknob_profile_kobj s) detent_attr s;
                 s \<leftarrow> sysfs_remove_file (motorknob_profile_kobj s) start_pos_attr s;
                 s \<leftarrow> sysfs_remove_file (motorknob_profile_kobj s) end_pos_attr s;
                 s \<leftarrow> kobject_put (motorknob_profile_kobj s) s;
                 s \<leftarrow> kobject_put (motorknob_kobj s) s;
                 Some (- ENOMEM, s)
               }
               else Some (0, s)
             }
           }
         }
       }
     }
   }"

definition destory_sysfs :: "world \<Rightarrow> world option" where
  "destory_sysfs s0 = do {
     s \<leftarrow> sysfs_remove_file (motorknob_profile_kobj s0) detent_attr s0;
     s \<leftarrow> sysfs_remove_file (motorknob_profile_kobj s) start_pos_attr s;
     s \<leftarrow> sysfs_remove_file (motorknob_profile_kobj s) end_pos_attr s;
     s \<leftarrow> sysfs_remove_file (motorknob_kobj s) position_attr s;
     s \<leftarrow> kobject_put (motorknob_profile_kobj s) s;
     kobject_put (motorknob_kobj s) s
   }"

subsection \<open>What an observer of sysfs sees\<close>

text \<open>
  The attribute files that exist, each with the name of its directory, and the
  directories that exist. \<open>init_world\<close> is the state when the module is loaded: no
  kobject yet, both static pointers zero.
\<close>

definition endpoints :: "world \<Rightarrow> (string \<times> string) list" where
  "endpoints s =
     concat (map (\<lambda>x. case x of None \<Rightarrow> [] | Some k \<Rightarrow> map (Pair (kname k)) (kfiles k)) (heap s))"

definition containers :: "world \<Rightarrow> string list" where
  "containers s = concat (map (\<lambda>x. case x of None \<Rightarrow> [] | Some k \<Rightarrow> [kname k]) (heap s))"

definition init_world :: world where
  "init_world = \<lparr>heap = [], motorknob_kobj = NULL, motorknob_profile_kobj = NULL, calls = []\<rparr>"

text \<open>The kernel's decisions used in the examples: all granted, or all but one name.\<close>

definition grant_all :: "string \<Rightarrow> bool" where
  "grant_all n = True"

definition fail_at :: "string \<Rightarrow> string \<Rightarrow> bool" where
  "fail_at x n = (n \<noteq> x)"

text \<open>The calls of a run of \<open>setup_sysfs\<close>; none if the run had no result.\<close>

definition calls_of :: "(int \<times> world) option \<Rightarrow> sysfs_call list" where
  "calls_of res = (case res of None \<Rightarrow> [] | Some (r, s) \<Rightarrow> calls s)"

definition world_of :: "(int \<times> world) option \<Rightarrow> world option" where
  "world_of res = map_option snd res"

text \<open>
  The four \<^verbatim>\<open>sysfs_create_file\<close> calls of \<open>setup_sysfs\<close> in the order of the source,
  each with the kobject it is made on.
\<close>

definition registration_names :: "string list" where
  "registration_names = [''detents'', ''start_position'', ''end_position'', ''position'']"

definition registrations :: "kptr \<Rightarrow> kptr \<Rightarrow> (kptr \<times> string) list" where
  "registrations root child = zip [child, child, child, root] registration_names"

text \<open>
  The rollback in the words of the specification, for a failure after \<open>n\<close> registrations:
  the endpoints registered so far are unregistered in reverse order of registration,
  then the child container is released, then the root container.
\<close>

definition spec_rollback :: "kptr \<Rightarrow> kptr \<Rightarrow> nat \<Rightarrow> sysfs_call list" where
  "spec_rollback root child n =
     map (case_prod Remove_file) (rev (take n (registrations root child))) @
     [Put child, Put root]"

section \<open>Properties of the register codec\<close>

subsection \<open>Auxiliary facts\<close>

lemma build_word_unsigned:
  "build_word False bs = push_bit 8 (ucast (bs ! 0)) XOR ucast (bs ! 1)"
  unfolding build_word_def char_to_uint16_def char_to_int_def Let_def
  by (rule bit_word_eqI) (auto simp: bit_simps)

text \<open>
  Were plain \<^verbatim>\<open>char\<close> signed, a second byte from \<open>0x80\<close> on would be sign-extended by
  the promotion and would flip the high byte of the word.
\<close>

lemma build_word_signed_char:
  "build_word True [0x00, 0x80] = 0xFF80"
  by (simp add: build_word_def char_to_uint16_def char_to_int_def)

lemma count_ge_2: "2 \<le> unat (count :: size_t) \<Longrightarrow> \<not> count < 2"
  by (simp add: word_less_nat_alt)

lemma count_lt_2: "unat (count :: size_t) < 2 \<Longrightarrow> count < 2"
  by (simp add: word_less_nat_alt)

lemma sint_count:
  assumes "unat (count :: size_t) < 2 ^ 63"
  shows "sint count = int (unat count)"
proof -
  have "int (unat count) < int (2 ^ 63)"
    using assms by (simp only: of_nat_less_iff)
  then have "uint count < 2 ^ 63"
    by simp
  moreover have "- (2 ^ 63) \<le> uint count"
    by (rule order_trans [of _ 0]) simp_all
  ultimately have "signed_take_bit 63 (uint count) = uint count"
    by (simp add: signed_take_bit_int_eq_self)
  then show ?thesis
    by (simp add: sint_uint)
qed

lemma high_byte:
  "(ucast (signed_drop_bit 8 (r :: s32)) :: u8) = ucast (drop_bit 8 (ucast r :: uint16_t))"
  by (rule bit_word_eqI) (auto simp: bit_simps)

lemma low_byte: "(ucast (ucast (r :: s32) :: uint16_t) :: u8) = ucast r"
  by (rule bit_word_eqI) (auto simp: bit_simps)

lemma update_two: "2 \<le> length xs \<Longrightarrow> xs[0 := a, 1 := b] = a # b # drop 2 xs"
  by (cases xs; cases "tl xs") auto

subsection \<open>The word written\<close>

text \<open>
  C1. For every payload of at least two bytes, \<open>count\<close> being its length, the one
  transaction \<open>motorknob_write\<close> issues writes, to the register given, the 16-bit word
  (byte 0 shifted left by 8) XOR (byte 1), for all values of the two bytes. Plain
  \<^verbatim>\<open>char\<close> is unsigned here, as the kernel build has it.
\<close>

theorem motorknob_write_word:
  "2 \<le> length payload \<Longrightarrow> unat count = length payload \<Longrightarrow>
   snd (motorknob_write False b reg payload count log) =
     log @ [Write_word reg (push_bit 8 (ucast (payload ! 0)) XOR ucast (payload ! 1))]"
  by (simp add: motorknob_write_def i2c_smbus_write_word_data_def build_word_unsigned count_ge_2)

text \<open>
  The scenario of the specification, and a payload of two bytes from \<open>0x80\<close> on with a
  third byte behind them.
\<close>

theorem motorknob_write_word_witness:
  "snd (motorknob_write False (\<lambda>l e. 0) WRITE_START_POS [0x01, 0x02] 2 []) =
     [Write_word 0x80 0x0102] \<and>
   snd (motorknob_write False (\<lambda>l e. 0) WRITE_DETENTS [0x80, 0xFF, 0x07] 3 []) =
     [Write_word 0x82 0x80FF]"
  using motorknob_write_word [of "[0x01, 0x02]" 2 "\<lambda>l e. 0" WRITE_START_POS "[]"]
    motorknob_write_word [of "[0x80, 0xFF, 0x07]" 3 "\<lambda>l e. 0" WRITE_DETENTS "[]"]
  by (simp add: WRITE_START_POS_def WRITE_DETENTS_def WRITE_REQUEST_def DATA_START_POS_def
      DATA_DETENTS_def)

subsection \<open>The result of a write\<close>

text \<open>
  C7. A payload shorter than two bytes makes \<open>motorknob_write\<close> return \<open>-EINVAL\<close> with
  no transaction issued. A payload of two bytes or more whose transaction the bus
  accepts makes it return the whole length of the payload. (The length is below
  \<open>2 ^ 63\<close>, as that of every object in memory, so that it is a value of
  \<^verbatim>\<open>ssize_t\<close>.)
\<close>

theorem motorknob_write_result:
  "unat count = length payload \<Longrightarrow>
     (length payload < 2 \<longrightarrow>
        motorknob_write cs b reg payload count log = (- EINVAL, log)) \<and>
     (2 \<le> length payload \<and> length payload < 2 ^ 63 \<and>
        0 \<le> sint (b log (Write_word reg (build_word cs payload))) \<longrightarrow>
        fst (motorknob_write cs b reg payload count log) = int (length payload))"
  by (auto simp: motorknob_write_def i2c_smbus_write_word_data_def count_ge_2 count_lt_2
      sint_count)

theorem motorknob_write_result_witness:
  "motorknob_write False (\<lambda>l e. 0) WRITE_END_POS [0x2A] 1 [Read_word 3] =
     (- 22, [Read_word 3]) \<and>
   fst (motorknob_write False (\<lambda>l e. 0) WRITE_END_POS [1, 2, 3, 4, 5] 5 []) = 5"
  using motorknob_write_result [of 1 "[0x2A]" False "\<lambda>l e. 0" WRITE_END_POS "[Read_word 3]"]
    motorknob_write_result [of 5 "[1, 2, 3, 4, 5]" False "\<lambda>l e. 0" WRITE_END_POS "[]"]
  by (simp add: EINVAL_def)

subsection \<open>Bytes behind the second\<close>

text \<open>
  C10. Two payloads of the same length, two bytes or more, that agree on bytes 0 and 1
  make \<open>motorknob_write\<close> issue the same transaction and return the same result.
\<close>

theorem motorknob_write_ignores_tail:
  "length p = length q \<Longrightarrow> 2 \<le> length p \<Longrightarrow> p ! 0 = q ! 0 \<Longrightarrow> p ! 1 = q ! 1 \<Longrightarrow>
   unat count = length p \<Longrightarrow>
   motorknob_write cs b reg p count log = motorknob_write cs b reg q count log"
  by (simp add: motorknob_write_def build_word_def)

theorem motorknob_write_ignores_tail_witness:
  "motorknob_write False (\<lambda>l e. 0) WRITE_DETENTS [0x12, 0x34, 0x56, 0x78] 4 [] =
   motorknob_write False (\<lambda>l e. 0) WRITE_DETENTS [0x12, 0x34, 0xAB, 0xCD] 4 []"
  using motorknob_write_ignores_tail [of "[0x12, 0x34, 0x56, 0x78]" "[0x12, 0x34, 0xAB, 0xCD]"
      4 False "\<lambda>l e. 0" WRITE_DETENTS "[]"]
  by simp

subsection \<open>A successful read\<close>

text \<open>
  C5. When the bus returns a non-negative result, \<open>motorknob_read\<close> returns 2 and has
  written two bytes to the buffer, the rest of it untouched: at position 0 the low
  byte of the 16-bit result, at position 1 its high byte. The buffer holds two bytes at
  least, as the source asks of its caller.
\<close>

theorem motorknob_read_success:
  "2 \<le> length user_buffer \<Longrightarrow> 0 \<le> sint (b log (Read_word reg)) \<Longrightarrow>
   motorknob_read b reg user_buffer log =
     (2,
      ucast (ucast (b log (Read_word reg)) :: uint16_t) #
      ucast (drop_bit 8 (ucast (b log (Read_word reg)) :: uint16_t)) #
      drop 2 user_buffer,
      log @ [Read_word reg])"
  by (simp add: motorknob_read_def i2c_smbus_read_word_data_def update_two [simplified]
      high_byte low_byte)

theorem motorknob_read_success_witness:
  "motorknob_read (\<lambda>l e. 0x1234) DATA_CURRENT_POS [0, 0, 0x55] [] =
     (2, [0x34, 0x12, 0x55], [Read_word 3])"
  using motorknob_read_success [of "[0, 0, 0x55]" "\<lambda>l e. 0x1234" "[]" DATA_CURRENT_POS]
  by (simp add: DATA_CURRENT_POS_def)

subsection \<open>A failed read\<close>

text \<open>
  C9. When the bus returns a negative status, for whatever register, \<open>motorknob_read\<close>
  returns that status and leaves the caller's buffer as it was.
\<close>

theorem motorknob_read_failure:
  "sint (b log (Read_word reg)) < 0 \<Longrightarrow>
   motorknob_read b reg user_buffer log =
     (sint (b log (Read_word reg)), user_buffer, log @ [Read_word reg])"
  by (simp add: motorknob_read_def i2c_smbus_read_word_data_def)

theorem motorknob_read_failure_witness:
  "motorknob_read (\<lambda>l e. - 5) DATA_DETENTS [0x11, 0x22] [] = (- 5, [0x11, 0x22], [Read_word 2])"
  using motorknob_read_failure [of "\<lambda>l e. - 5" "[]" DATA_DETENTS "[0x11, 0x22]"]
  by (simp add: DATA_DETENTS_def)

subsection \<open>Register addresses\<close>

text \<open>
  C6, as the claim states it, asks of each of the four attributes a write path whose
  register address is that of the read path with the bit \<open>0x80\<close> set. The attribute
  of the current position has no write path: its \<^verbatim>\<open>store\<close> is \<^verbatim>\<open>NULL\<close>.
\<close>

theorem position_write_path_counterexample:
  "attr_store position_attr = None"
  by (simp add: position_attr_def)

text \<open>
  C6, amended. Each of the three attributes of the profile reads at the bare register
  number, 0 to 2, and writes at that number with the bit \<open>0x80\<close> set, \<open>0x80\<close> to
  \<open>0x82\<close>; the two addresses differ by exactly \<open>WRITE_REQUEST\<close>. The position is read
  at register 3 and has no write path.
\<close>

theorem register_addresses:
  "((a, r) \<in> set [(start_pos_attr, 0), (end_pos_attr, 1), (detent_attr, 2)] \<and> 2 \<le> unat count \<longrightarrow>
      (\<exists>rd wr. attr_show a = Some rd \<and> attr_store a = Some wr \<and>
         snd (snd (rd b buffer log)) = log @ [Read_word r] \<and>
         snd (wr cs b payload count log) =
           log @ [Write_word (WRITE_REQUEST OR r) (build_word cs payload)] \<and>
         (WRITE_REQUEST OR r) XOR r = WRITE_REQUEST \<and> WRITE_REQUEST = 0x80)) \<and>
   (\<exists>rd. attr_show position_attr = Some rd \<and> attr_store position_attr = None \<and>
      snd (snd (rd b buffer log)) = log @ [Read_word 3])"
  by (auto simp: start_pos_attr_def end_pos_attr_def detent_attr_def position_attr_def
      read_start_position_def read_end_position_def read_detents_def read_position_def
      write_start_position_def write_end_position_def write_detents_def
      WRITE_START_POS_def WRITE_END_POS_def WRITE_DETENTS_def WRITE_REQUEST_def
      DATA_START_POS_def DATA_END_POS_def DATA_DETENTS_def DATA_CURRENT_POS_def
      motorknob_read_def motorknob_write_def i2c_smbus_read_word_data_def
      i2c_smbus_write_word_data_def count_ge_2)

theorem register_addresses_witness:
  "\<exists>rd wr. attr_show detent_attr = Some rd \<and> attr_store detent_attr = Some wr \<and>
     snd (snd (rd (\<lambda>l e. 7) [0, 0] [])) = [Read_word 2] \<and>
     snd (wr False (\<lambda>l e. 7) [0x01, 0x02] 2 []) = [Write_word 0x82 0x0102]"
  using register_addresses [of detent_attr 2 2 "\<lambda>l e. 7" "[0, 0]" "[]" False "[0x01, 0x02]"]
  by (simp add: detent_attr_def start_pos_attr_def end_pos_attr_def WRITE_REQUEST_def
      build_word_unsigned)

section \<open>Properties of the sysfs entries\<close>

lemmas sysfs_defs =
  setup_sysfs_def destory_sysfs_def kobject_create_and_add_def kobject_put_def
  sysfs_create_file_def sysfs_remove_file_def deref_def detent_attr_def start_pos_attr_def
  end_pos_attr_def position_attr_def Let_def nth_append list_update_append
  ENOMEM_def EINVAL_def EEXIST_def

subsection \<open>All or nothing\<close>

text \<open>
  C2. From any state and whatever the kernel grants, \<open>setup_sysfs\<close> returns. If one of
  the six creations is refused (the root directory, the profile directory, or one of
  the four files) it returns \<open>-ENOMEM\<close>, and the files and directories that exist
  afterwards are those that existed before: no file of this call is left and both
  directories of this call are gone. If all six are granted it returns 0 and the four
  files exist, in the two new directories.
\<close>

theorem setup_sysfs_all_or_nothing:
  "\<exists>r s'. setup_sysfs ok s = Some (r, s') \<and>
     (if ok ''motorknob'' \<and> ok ''profile'' \<and> ok ''detents'' \<and> ok ''start_position'' \<and>
         ok ''end_position'' \<and> ok ''position''
      then r = 0 \<and>
        endpoints s' = endpoints s @
          [(''motorknob'', ''position''), (''profile'', ''detents''),
           (''profile'', ''start_position''), (''profile'', ''end_position'')] \<and>
        containers s' = containers s @ [''motorknob'', ''profile'']
      else r = - ENOMEM \<and> endpoints s' = endpoints s \<and> containers s' = containers s)"
  by (simp add: sysfs_defs endpoints_def containers_def)

theorem setup_sysfs_all_or_nothing_witness:
  "(\<exists>r s'. setup_sysfs (fail_at ''motorknob'') init_world = Some (r, s') \<and>
      r = - 12 \<and> endpoints s' = [] \<and> containers s' = []) \<and>
   (\<exists>r s'. setup_sysfs (fail_at ''profile'') init_world = Some (r, s') \<and>
      r = - 12 \<and> endpoints s' = [] \<and> containers s' = []) \<and>
   (\<exists>r s'. setup_sysfs (fail_at ''detents'') init_world = Some (r, s') \<and>
      r = - 12 \<and> endpoints s' = [] \<and> containers s' = []) \<and>
   (\<exists>r s'. setup_sysfs (fail_at ''start_position'') init_world = Some (r, s') \<and>
      r = - 12 \<and> endpoints s' = [] \<and> containers s' = []) \<and>
   (\<exists>r s'. setup_sysfs (fail_at ''end_position'') init_world = Some (r, s') \<and>
      r = - 12 \<and> endpoints s' = [] \<and> containers s' = []) \<and>
   (\<exists>r s'. setup_sysfs (fail_at ''position'') init_world = Some (r, s') \<and>
      r = - 12 \<and> endpoints s' = [] \<and> containers s' = []) \<and>
   (\<exists>r s'. setup_sysfs grant_all init_world = Some (r, s') \<and>
      r = 0 \<and>
      endpoints s' =
        [(''motorknob'', ''position''), (''profile'', ''detents''),
         (''profile'', ''start_position''), (''profile'', ''end_position'')] \<and>
      containers s' = [''motorknob'', ''profile''])"
  using setup_sysfs_all_or_nothing [of "fail_at ''motorknob''" init_world]
    setup_sysfs_all_or_nothing [of "fail_at ''profile''" init_world]
    setup_sysfs_all_or_nothing [of "fail_at ''detents''" init_world]
    setup_sysfs_all_or_nothing [of "fail_at ''start_position''" init_world]
    setup_sysfs_all_or_nothing [of "fail_at ''end_position''" init_world]
    setup_sysfs_all_or_nothing [of "fail_at ''position''" init_world]
    setup_sysfs_all_or_nothing [of grant_all init_world]
  by (simp add: fail_at_def grant_all_def init_world_def endpoints_def containers_def ENOMEM_def)

subsection \<open>The order of the rollback\<close>

text \<open>
  C3, as the claim states it, has the endpoints registered so far unregistered in
  reverse order of registration. When the third registration (\<open>end_position\<close>) is
  refused, the code removes \<open>detents\<close> first and \<open>start_position\<close> second, which is the
  order of registration.
\<close>

theorem rollback_order_counterexample:
  "calls_of (setup_sysfs (fail_at ''end_position'') init_world) =
     [Create_and_add ''motorknob'' NULL, Create_and_add ''profile'' (Ptr 0),
      Create_file (Ptr 1) ''detents'', Create_file (Ptr 1) ''start_position'',
      Create_file (Ptr 1) ''end_position'',
      Remove_file (Ptr 1) ''detents'', Remove_file (Ptr 1) ''start_position'',
      Put (Ptr 1), Put (Ptr 0)] \<and>
   drop 5 (calls_of (setup_sysfs (fail_at ''end_position'') init_world)) \<noteq>
     spec_rollback (Ptr 0) (Ptr 1) 2"
  by (simp add: sysfs_defs calls_of_def fail_at_def init_world_def spec_rollback_def
      registrations_def registration_names_def)

text \<open>
  C3, amended. When the two directories are granted and registration number \<open>n\<close>
  (counted from 0) is the first one refused, \<open>setup_sysfs\<close> returns \<open>-ENOMEM\<close>, and its
  calls are: the two directory creations, the registrations up to the refused one, then
  the removal of the \<open>n\<close> endpoints registered, in the order of their registration, then
  the release of both directories. When an endpoint had been registered (\<open>0 < n\<close>), the
  child directory is released first and the root directory second.
\<close>

theorem setup_sysfs_rollback:
  assumes "ok ''motorknob''" and "ok ''profile''" and "n < 4"
    and "\<forall>a \<in> set (take n registration_names). ok a"
    and "\<not> ok (registration_names ! n)"
  shows "\<exists>s' rest. setup_sysfs ok s = Some (- ENOMEM, s') \<and>
     calls s' = calls s @
       [Create_and_add ''motorknob'' NULL, Create_and_add ''profile'' (motorknob_kobj s')] @
       map (case_prod Create_file)
         (take (Suc n) (registrations (motorknob_kobj s') (motorknob_profile_kobj s'))) @
       map (case_prod Remove_file)
         (take n (registrations (motorknob_kobj s') (motorknob_profile_kobj s'))) @
       rest \<and>
     set rest = {Put (motorknob_profile_kobj s'), Put (motorknob_kobj s')} \<and>
     (0 < n \<longrightarrow> rest = [Put (motorknob_profile_kobj s'), Put (motorknob_kobj s')])"
proof -
  from \<open>n < 4\<close> consider "n = 0" | "n = 1" | "n = 2" | "n = 3"
    by linarith
  then show ?thesis
  proof cases
    case 1
    with assms show ?thesis
      by (simp add: sysfs_defs registrations_def registration_names_def insert_commute)
  next
    case 2
    with assms show ?thesis
      by (simp add: sysfs_defs registrations_def registration_names_def)
  next
    case 3
    with assms show ?thesis
      by (simp add: sysfs_defs registrations_def registration_names_def)
  next
    case 4
    with assms show ?thesis
      by (simp add: sysfs_defs registrations_def registration_names_def)
  qed
qed

theorem setup_sysfs_rollback_witness:
  "\<exists>s'. setup_sysfs (fail_at ''position'') init_world = Some (- 12, s') \<and>
     calls s' =
       [Create_and_add ''motorknob'' NULL, Create_and_add ''profile'' (motorknob_kobj s'),
        Create_file (motorknob_profile_kobj s') ''detents'',
        Create_file (motorknob_profile_kobj s') ''start_position'',
        Create_file (motorknob_profile_kobj s') ''end_position'',
        Create_file (motorknob_kobj s') ''position'',
        Remove_file (motorknob_profile_kobj s') ''detents'',
        Remove_file (motorknob_profile_kobj s') ''start_position'',
        Remove_file (motorknob_profile_kobj s') ''end_position'',
        Put (motorknob_profile_kobj s'), Put (motorknob_kobj s')]"
  using setup_sysfs_rollback [of "fail_at ''position''" 3 init_world]
  by (auto simp: fail_at_def registration_names_def registrations_def init_world_def ENOMEM_def
      numeral_3_eq_3)

subsection \<open>The order of the releases\<close>

text \<open>
  C4. The run in which the first registration (\<open>detents\<close>) is refused: the root
  directory, \<open>motorknob_kobj\<close> at address 0, is released before the child directory,
  \<open>motorknob_profile_kobj\<close> at address 1. The other rollback branches and
  \<open>destory_sysfs\<close> release the child first.
\<close>

theorem setup_sysfs_detents_refused:
  "setup_sysfs (fail_at ''detents'') init_world =
     Some (- ENOMEM,
       \<lparr>heap = [None, None], motorknob_kobj = Ptr 0, motorknob_profile_kobj = Ptr 1,
        calls =
          [Create_and_add ''motorknob'' NULL, Create_and_add ''profile'' (Ptr 0),
           Create_file (Ptr 1) ''detents'', Put (Ptr 0), Put (Ptr 1)]\<rparr>)"
  by (simp add: sysfs_defs fail_at_def init_world_def)

subsection \<open>Teardown\<close>

text \<open>
  C8, as the claim states it, makes \<open>destory_sysfs\<close> safe in any state. With nothing
  published the first \<^verbatim>\<open>sysfs_remove_file\<close> dereferences the \<open>NULL\<close> pointer
  \<open>motorknob_profile_kobj\<close>; so it does after a publish that failed at the profile
  directory; and a second teardown in a row dereferences the pointers of the kobjects
  the first one freed, \<open>destory_sysfs\<close> leaving both static pointers as they were.
\<close>

theorem destory_sysfs_counterexample:
  "destory_sysfs init_world = None \<and>
   world_of (setup_sysfs (fail_at ''profile'') init_world) \<noteq> None \<and>
   (world_of (setup_sysfs (fail_at ''profile'') init_world) \<bind> destory_sysfs) = None \<and>
   (world_of (setup_sysfs grant_all init_world) \<bind> destory_sysfs) \<noteq> None \<and>
   (world_of (setup_sysfs grant_all init_world) \<bind> destory_sysfs \<bind> destory_sysfs) = None"
  by (simp add: sysfs_defs world_of_def fail_at_def grant_all_def init_world_def)

text \<open>
  C8, amended. After a publish that succeeded, from any state, \<open>destory_sysfs\<close> returns;
  it removes the four files in the order \<open>detents\<close>, \<open>start_position\<close>, \<open>end_position\<close>,
  \<open>position\<close>, releases the child directory and then the root directory, and the files
  and directories that exist afterwards are those of before the publish.
\<close>

theorem destory_sysfs_after_setup:
  assumes "ok ''motorknob''" and "ok ''profile''" and "ok ''detents''"
    and "ok ''start_position''" and "ok ''end_position''" and "ok ''position''"
  shows "\<exists>s1 s2. setup_sysfs ok s = Some (0, s1) \<and> destory_sysfs s1 = Some s2 \<and>
     endpoints s2 = endpoints s \<and> containers s2 = containers s \<and>
     calls s2 = calls s1 @
       [Remove_file (motorknob_profile_kobj s1) ''detents'',
        Remove_file (motorknob_profile_kobj s1) ''start_position'',
        Remove_file (motorknob_profile_kobj s1) ''end_position'',
        Remove_file (motorknob_kobj s1) ''position'',
        Put (motorknob_profile_kobj s1), Put (motorknob_kobj s1)]"
  using assms by (simp add: sysfs_defs endpoints_def containers_def)

theorem destory_sysfs_after_setup_witness:
  "\<exists>s1 s2. setup_sysfs grant_all init_world = Some (0, s1) \<and> destory_sysfs s1 = Some s2 \<and>
     endpoints s2 = [] \<and> containers s2 = []"
  using destory_sysfs_after_setup [of grant_all init_world]
  by (auto simp: grant_all_def init_world_def endpoints_def containers_def)

end
